theory Spec2Isabelle
  imports Main "HOL-Library.Char_ord" "HOL-Library.List_Lexorder" "HOL-Library.Multiset"
begin

section \<open>JavaScript values, requests and responses\<close>

text \<open>
  The service is \<^verbatim>\<open>backend/server.js\<close>: an Express application whose handlers read the
  parsed JSON body of a request, run one parameterised SQL statement against PostgreSQL and
  answer with a status and a JSON body.

  A JSON value as \<^verbatim>\<open>express.json()\<close> hands it to a handler, plus \<^verbatim>\<open>undefined\<close>, the value
  of a property that the body does not have. The handlers look at a number only to see
  whether it is zero, so a number is represented by an integer.
\<close>

datatype jsval =
    JUndefined
  | JNull
  | JBool bool
  | JNum int
  | JStr string
  | JArr "jsval list"
  | JObj "(string \<times> jsval) list"

text \<open>\<^verbatim>\<open>!v\<close>: the falsy values of JavaScript.\<close>

fun falsy :: "jsval \<Rightarrow> bool" where
  "falsy JUndefined = True"
| "falsy JNull = True"
| "falsy (JBool b) = (\<not> b)"
| "falsy (JNum n) = (n = 0)"
| "falsy (JStr s) = (s = [])"
| "falsy (JArr vs) = False"
| "falsy (JObj kvs) = False"

text \<open>\<^verbatim>\<open>Array.isArray(v)\<close>.\<close>

fun isArray :: "jsval \<Rightarrow> bool" where
  "isArray (JArr vs) = True"
| "isArray v = False"

text \<open>
  \<^verbatim>\<open>req.body\<close> is the parsed JSON object; \<^verbatim>\<open>const { k } = req.body\<close> reads property
  \<^verbatim>\<open>k\<close>, which is \<^verbatim>\<open>undefined\<close> when the object has no such property.
\<close>

type_synonym body = "string \<rightharpoonup> jsval"

definition field :: "body \<Rightarrow> string \<Rightarrow> jsval" where
  "field b k = (case b k of None \<Rightarrow> JUndefined | Some v \<Rightarrow> v)"

record request =
  headers_authorization :: "string option"
  req_body :: body
  params_id :: string

text \<open>\<^verbatim>\<open>res.status(n).json(v)\<close>; \<^verbatim>\<open>res.json(v)\<close> alone answers with status 200.\<close>

datatype response = Response (status: nat) (json: jsval)

definition error_body :: "string \<Rightarrow> jsval" where
  "error_body msg = JObj [(''error'', JStr msg)]"

section \<open>The libraries the handlers call\<close>

text \<open>
  bcryptjs, jsonwebtoken and the PostgreSQL driver are not part of the repository. What the
  handlers use of them is a parameter of the model:
  \<^item> \<open>bcrypt_hash\<close>, \<open>bcrypt_compare\<close>: \<^verbatim>\<open>bcrypt.hash(s, 10)\<close> and \<^verbatim>\<open>bcrypt.compare(s, hash)\<close>
    on strings (on anything else both throw, see \<open>bcrypt_hash_js\<close> below);
  \<^item> \<open>jwt_sign\<close>: \<^verbatim>\<open>jwt.sign({ userId }, JWT_SECRET, { expiresIn: '7d' })\<close>, with the secret
    configured;
  \<^item> \<open>jwt_verify\<close>: \<^verbatim>\<open>jwt.verify(token, JWT_SECRET).userId\<close>, \<open>None\<close> when \<^verbatim>\<open>verify\<close> throws
    (bad signature, malformed or expired token). The tokens that verify are the ones this
    service signed, whose \<^verbatim>\<open>userId\<close> is the integer id of a user row;
  \<^item> \<open>pg_text\<close>: the text the driver sends for a query parameter that is neither a string
    nor \<^verbatim>\<open>null\<close>/\<^verbatim>\<open>undefined\<close>;
  \<^item> \<open>pg_int4\<close>: PostgreSQL's reading of a text parameter as an \<^verbatim>\<open>INTEGER\<close>, \<open>None\<close> when
    the text is not an integer of that type;
  \<^item> \<open>jsonb_accepts\<close>, \<open>jsonb\<close>: whether PostgreSQL takes \<^verbatim>\<open>JSON.stringify(v)\<close> as a value of
    the \<^verbatim>\<open>JSONB\<close> type, and the document that the column then gives back;
  \<^item> \<open>now\<close>: \<^verbatim>\<open>CURRENT_TIMESTAMP\<close>, as it is rendered in a response.
\<close>

record env =
  bcrypt_hash :: "string \<Rightarrow> string"
  bcrypt_compare :: "string \<Rightarrow> string \<Rightarrow> bool"
  jwt_sign :: "int \<Rightarrow> string"
  jwt_verify :: "string \<Rightarrow> int option"
  pg_text :: "jsval \<Rightarrow> string"
  pg_int4 :: "string \<Rightarrow> int option"
  jsonb_accepts :: "jsval \<Rightarrow> bool"
  jsonb :: "jsval \<Rightarrow> jsval"
  now :: string

text \<open>What a handler's \<^verbatim>\<open>catch (err)\<close> can receive.\<close>

datatype pg_error =
    string_data_right_truncation
  | character_not_in_repertoire
  | untranslatable_character
  | invalid_text_representation
  | not_null_violation
  | foreign_key_violation
  | unique_violation

datatype exn = PgError pg_error | IllegalArguments

text \<open>\<^verbatim>\<open>err.code\<close>: the SQLSTATE of a database error; a bcryptjs error has none.\<close>

fun sqlstate :: "pg_error \<Rightarrow> string" where
  "sqlstate string_data_right_truncation = ''22001''"
| "sqlstate character_not_in_repertoire = ''22021''"
| "sqlstate untranslatable_character = ''22P05''"
| "sqlstate invalid_text_representation = ''22P02''"
| "sqlstate not_null_violation = ''23502''"
| "sqlstate foreign_key_violation = ''23503''"
| "sqlstate unique_violation = ''23505''"

fun err_code :: "exn \<Rightarrow> string option" where
  "err_code (PgError e) = Some (sqlstate e)"
| "err_code IllegalArguments = None"

text \<open>bcryptjs rejects an argument that is not a string with \<^verbatim>\<open>Error("Illegal arguments: ...")\<close>.\<close>

definition bcrypt_hash_js :: "env \<Rightarrow> jsval \<Rightarrow> exn + string" where
  "bcrypt_hash_js e v = (case v of JStr s \<Rightarrow> Inr (bcrypt_hash e s) | _ \<Rightarrow> Inl IllegalArguments)"

definition bcrypt_compare_js :: "env \<Rightarrow> jsval \<Rightarrow> string \<Rightarrow> exn + bool" where
  "bcrypt_compare_js e v h =
     (case v of JStr s \<Rightarrow> Inr (bcrypt_compare e s h) | _ \<Rightarrow> Inl IllegalArguments)"

text \<open>
  The driver's \<^verbatim>\<open>prepareValue\<close>: \<^verbatim>\<open>null\<close> and \<^verbatim>\<open>undefined\<close> become SQL \<^verbatim>\<open>NULL\<close> (\<open>None\<close>), a
  string is sent as it is.
\<close>

definition prepareValue :: "env \<Rightarrow> jsval \<Rightarrow> string option" where
  "prepareValue e v =
     (case v of JUndefined \<Rightarrow> None | JNull \<Rightarrow> None | JStr s \<Rightarrow> Some s | _ \<Rightarrow> Some (pg_text e v))"

section \<open>The auth gate\<close>

text \<open>
  \<^verbatim>\<open>s.split(' ')\<close>: the pieces of \<open>s\<close> between single spaces; two adjacent spaces enclose an
  empty piece, and the empty string has the one piece \<^verbatim>\<open>""\<close>.
\<close>

fun split :: "char \<Rightarrow> string \<Rightarrow> string list" where
  "split sep [] = [Nil]"
| "split sep (c # cs) =
     (if c = sep then [] # split sep cs
      else (case split sep cs of [] \<Rightarrow> [c] # [] | w # ws \<Rightarrow> (c # w) # ws))"

text \<open>\<^verbatim>\<open>xs[i]\<close> on an array: \<^verbatim>\<open>undefined\<close> (\<open>None\<close>) out of range.\<close>

definition index :: "'a list \<Rightarrow> nat \<Rightarrow> 'a option" where
  "index xs i = (if i < length xs then Some (xs ! i) else None)"

text \<open>\<^verbatim>\<open>req.headers.authorization?.split(' ')[1]\<close>\<close>

definition token_of :: "request \<Rightarrow> string option" where
  "token_of req =
     (case headers_authorization req of
        None \<Rightarrow> None
      | Some h \<Rightarrow> index (split (CHR '' '') h) 1)"

text \<open>
  \<^verbatim>\<open>
  const authMiddleware = (req, res, next) => {
    const token = req.headers.authorization?.split(' ')[1];
    if (!token) return res.status(401).json({ error: 'No token provided' });
    try {
      const decoded = jwt.verify(token, process.env.JWT_SECRET);
      req.userId = decoded.userId;
      next();
    } catch (err) {
      res.status(401).json({ error: 'Invalid token' });
    }
  };
  \<close>
  The result is either the response of the gate (\<open>Inl\<close>) or the \<^verbatim>\<open>req.userId\<close> with which
  \<^verbatim>\<open>next()\<close> runs the handler (\<open>Inr\<close>).
\<close>

definition authMiddleware :: "env \<Rightarrow> request \<Rightarrow> response + int" where
  "authMiddleware e req =
     (case token_of req of
        None \<Rightarrow> Inl (Response 401 (error_body ''No token provided''))
      | Some token \<Rightarrow>
          if token = [] then Inl (Response 401 (error_body ''No token provided''))
          else (case jwt_verify e token of
                  None \<Rightarrow> Inl (Response 401 (error_body ''Invalid token''))
                | Some userId \<Rightarrow> Inr userId))"

section \<open>The store\<close>

text \<open>
  The two tables that \<^verbatim>\<open>createTables\<close> creates when the server has connected. (The
  repository also holds an SQL script with an older \<^verbatim>\<open>workouts\<close> table of columns
  \<^verbatim>\<open>username, exercise, weight, reps\<close>; no statement of \<^verbatim>\<open>server.js\<close> fits that table, and
  the model takes the tables below.)
  \<^verbatim>\<open>
  CREATE TABLE IF NOT EXISTS users (
    id SERIAL PRIMARY KEY,
    username VARCHAR(50) UNIQUE NOT NULL,
    email VARCHAR(100) UNIQUE NOT NULL,
    password_hash VARCHAR(255) NOT NULL,
    created_at TIMESTAMP DEFAULT CURRENT_TIMESTAMP
  );
  CREATE TABLE IF NOT EXISTS workouts (
    id SERIAL PRIMARY KEY,
    user_id INTEGER REFERENCES users(id) ON DELETE CASCADE,
    exercise_id VARCHAR(100) NOT NULL,
    exercise_name VARCHAR(100) NOT NULL,
    sets_data JSONB NOT NULL,
    workout_timestamp VARCHAR(50) NOT NULL,
    created_at TIMESTAMP DEFAULT CURRENT_TIMESTAMP
  );
  \<close>
  A table is the list of its rows, oldest first; a \<^verbatim>\<open>SERIAL\<close> column draws its value from
  a sequence, whose next value is part of the state. \<open>user_id\<close> has no \<^verbatim>\<open>NOT NULL\<close>, so it
  is an option. \<open>created_at\<close> is kept as the text that a response shows.

  The model covers what the statements of the handlers and the constraints of this schema do
  to the two tables. A \<^typ>\<open>char\<close> stands for one character of a text, \<open>CHR 0x00\<close> for
  U+0000, so that \<^const>\<open>length\<close> counts characters as \<^verbatim>\<open>VARCHAR(n)\<close> does; strings compare by
  character codes (a binary collation), and the ids stay within \<^verbatim>\<open>INTEGER\<close>; the connection
  to the database does not fail.
\<close>

record user_row =
  u_id :: int
  u_username :: string
  u_email :: string
  u_password_hash :: string
  u_created_at :: string

record workout_row =
  w_id :: int
  w_user_id :: "int option"
  w_exercise_id :: string
  w_exercise_name :: string
  w_sets_data :: jsval
  w_workout_timestamp :: string
  w_created_at :: string

record db =
  users :: "user_row list"
  workouts :: "workout_row list"
  users_id_seq :: int
  workouts_id_seq :: int

text \<open>\<^verbatim>\<open>createTables\<close> on a new database: both tables empty, both sequences at 1.\<close>

definition createTables :: db where
  "createTables = \<lparr>users = [], workouts = [], users_id_seq = 1, workouts_id_seq = 1\<rparr>"

text \<open>
  Storing a value in a \<^verbatim>\<open>VARCHAR(n)\<close> column: a longer string is an error (SQLSTATE 22001),
  unless the characters beyond \<open>n\<close> are all spaces, which PostgreSQL drops. \<^verbatim>\<open>NULL\<close> passes
  (the \<^verbatim>\<open>NOT NULL\<close> constraint is checked afterwards).
\<close>

definition varchar :: "nat \<Rightarrow> string option \<Rightarrow> pg_error + string option" where
  "varchar n v =
     (case v of
        None \<Rightarrow> Inr None
      | Some s \<Rightarrow>
          if length s \<le> n then Inr (Some s)
          else if list_all (\<lambda>c. c = CHR '' '') (drop n s) then Inr (Some (take n s))
          else Inl string_data_right_truncation)"

text \<open>
  \<^verbatim>\<open>pool.query(text, values)\<close> sends the statement and its parameters; the server reads the
  parameters when they are bound, in their order, before the statement runs. A text with the
  character U+0000 is not text that PostgreSQL takes (SQLSTATE 22021), and a document that the
  \<^verbatim>\<open>JSONB\<close> type does not take (one with U+0000 in a string, for one: SQLSTATE 22P05) is
  rejected in the same way. A rejected parameter ends the query with nothing done; \<^verbatim>\<open>NULL\<close>
  is always taken. Below, each statement whose parameters come from the body of a request
  is followed by its query: the parameters are bound, then the statement runs.
\<close>

definition accepts_text :: "string option \<Rightarrow> bool" where
  "accepts_text v = (case v of None \<Rightarrow> True | Some s \<Rightarrow> CHR 0x00 \<notin> set s)"

text \<open>
  \<^verbatim>\<open>INSERT INTO users (username, email, password_hash) VALUES ($1, $2, $3)
  RETURNING id, username, email\<close>

  The statement, run on parameters that the server has taken (\<open>query_insert_user\<close> below is
  the query). The parameters are fitted to their columns first; then the row takes the next value of
  the sequence (which a failed insert does not give back), and the \<^verbatim>\<open>NOT NULL\<close> constraints
  and the three unique indexes (primary key, username, email) are checked. SQLSTATE 23505
  is the violation of any of the three.
\<close>

definition insert_user ::
  "string \<Rightarrow> string option \<Rightarrow> string option \<Rightarrow> string option \<Rightarrow> db \<Rightarrow> (pg_error + user_row) \<times> db"
where
  "insert_user ts username email password_hash d =
     (case varchar 50 username of
        Inl err \<Rightarrow> (Inl err, d)
      | Inr un \<Rightarrow>
     (case varchar 100 email of
        Inl err \<Rightarrow> (Inl err, d)
      | Inr em \<Rightarrow>
     (case varchar 255 password_hash of
        Inl err \<Rightarrow> (Inl err, d)
      | Inr ph \<Rightarrow>
     (let new_id = users_id_seq d;
          d1 = d\<lparr>users_id_seq := new_id + 1\<rparr>
      in case (un, em, ph) of
           (Some un', Some em', Some ph') \<Rightarrow>
             if new_id \<in> set (map u_id (users d)) \<or>
                un' \<in> set (map u_username (users d)) \<or>
                em' \<in> set (map u_email (users d))
             then (Inl unique_violation, d1)
             else
               (let row = \<lparr>u_id = new_id, u_username = un', u_email = em',
                           u_password_hash = ph', u_created_at = ts\<rparr>
                in (Inr row, d1\<lparr>users := users d1 @ [row]\<rparr>))
         | _ \<Rightarrow> (Inl not_null_violation, d1)))))"

definition query_insert_user ::
  "string \<Rightarrow> string option \<Rightarrow> string option \<Rightarrow> string option \<Rightarrow> db \<Rightarrow> (pg_error + user_row) \<times> db"
where
  "query_insert_user ts username email password_hash d =
     (if \<not> accepts_text username then (Inl character_not_in_repertoire, d)
      else if \<not> accepts_text email then (Inl character_not_in_repertoire, d)
      else if \<not> accepts_text password_hash then (Inl character_not_in_repertoire, d)
      else insert_user ts username email password_hash d)"

text \<open>
  \<^verbatim>\<open>SELECT * FROM users WHERE email = $1\<close>: the rows that the statement finds for a parameter
  that the server has taken (no row equals \<^verbatim>\<open>NULL\<close>), and the query.
\<close>

definition select_users_by_email :: "string option \<Rightarrow> db \<Rightarrow> user_row list" where
  "select_users_by_email email d =
     (case email of
        None \<Rightarrow> []
      | Some em \<Rightarrow> filter (\<lambda>u. u_email u = em) (users d))"

definition query_select_users_by_email :: "string option \<Rightarrow> db \<Rightarrow> pg_error + user_row list" where
  "query_select_users_by_email email d =
     (if \<not> accepts_text email then Inl character_not_in_repertoire
      else Inr (select_users_by_email email d))"

text \<open>
  \<^verbatim>\<open>SELECT * FROM workouts WHERE user_id = $1 ORDER BY workout_timestamp DESC\<close>

  \<open>workout_timestamp\<close> is a \<^verbatim>\<open>VARCHAR\<close> column, so the rows are ordered by comparing strings:
  the order on \<^typ>\<open>string\<close> is the lexicographic one, character by character. (SQL leaves
  the order among rows with equal keys open; here they come newest first.)
\<close>

definition select_workouts :: "int \<Rightarrow> db \<Rightarrow> workout_row list" where
  "select_workouts userId d =
     rev (sort_key w_workout_timestamp (filter (\<lambda>w. w_user_id w = Some userId) (workouts d)))"

text \<open>
  \<^verbatim>\<open>INSERT INTO workouts (user_id, exercise_id, exercise_name, sets_data, workout_timestamp)
  VALUES ($1, $2, $3, $4, $5) RETURNING *\<close>

  As for \<open>insert_user\<close>: the statement, run on parameters that the server has taken, with
  \<open>sets_data\<close> the document that the column holds; the reference to \<^verbatim>\<open>users(id)\<close> is checked
  last (SQLSTATE 23503). \<open>query_insert_workout\<close> is the query: its fourth parameter is
  \<^verbatim>\<open>JSON.stringify(sets)\<close>.
\<close>

definition insert_workout ::
  "string \<Rightarrow> int \<Rightarrow> string option \<Rightarrow> string option \<Rightarrow> jsval \<Rightarrow> string option \<Rightarrow> db
     \<Rightarrow> (pg_error + workout_row) \<times> db"
where
  "insert_workout ts userId exercise_id exercise_name sets_data workout_timestamp d =
     (case varchar 100 exercise_id of
        Inl err \<Rightarrow> (Inl err, d)
      | Inr ei \<Rightarrow>
     (case varchar 100 exercise_name of
        Inl err \<Rightarrow> (Inl err, d)
      | Inr en \<Rightarrow>
     (case varchar 50 workout_timestamp of
        Inl err \<Rightarrow> (Inl err, d)
      | Inr wt \<Rightarrow>
     (let new_id = workouts_id_seq d;
          d1 = d\<lparr>workouts_id_seq := new_id + 1\<rparr>
      in case (ei, en, wt) of
           (Some ei', Some en', Some wt') \<Rightarrow>
             if new_id \<in> set (map w_id (workouts d)) then (Inl unique_violation, d1)
             else if userId \<notin> set (map u_id (users d)) then (Inl foreign_key_violation, d1)
             else
               (let row = \<lparr>w_id = new_id, w_user_id = Some userId, w_exercise_id = ei',
                           w_exercise_name = en', w_sets_data = sets_data,
                           w_workout_timestamp = wt', w_created_at = ts\<rparr>
                in (Inr row, d1\<lparr>workouts := workouts d1 @ [row]\<rparr>))
         | _ \<Rightarrow> (Inl not_null_violation, d1)))))"

definition query_insert_workout ::
  "env \<Rightarrow> string \<Rightarrow> int \<Rightarrow> string option \<Rightarrow> string option \<Rightarrow> jsval \<Rightarrow> string option \<Rightarrow> db
     \<Rightarrow> (pg_error + workout_row) \<times> db"
where
  "query_insert_workout e ts userId exercise_id exercise_name sets workout_timestamp d =
     (if \<not> accepts_text exercise_id then (Inl character_not_in_repertoire, d)
      else if \<not> accepts_text exercise_name then (Inl character_not_in_repertoire, d)
      else if \<not> jsonb_accepts e sets then (Inl untranslatable_character, d)
      else if \<not> accepts_text workout_timestamp then (Inl character_not_in_repertoire, d)
      else insert_workout ts userId exercise_id exercise_name (jsonb e sets) workout_timestamp d)"

text \<open>
  \<^verbatim>\<open>DELETE FROM workouts WHERE id = $1 AND user_id = $2 RETURNING *\<close>

  \<open>$1\<close> is \<^verbatim>\<open>req.params.id\<close>, a piece of the URL: text that PostgreSQL reads as an
  \<^verbatim>\<open>INTEGER\<close>, or rejects when it is bound (a text that is no number, SQLSTATE 22P02; one
  with U+0000 is none either). The result is the list of the deleted rows.
\<close>

definition delete_workout :: "env \<Rightarrow> string \<Rightarrow> int \<Rightarrow> db \<Rightarrow> (pg_error + workout_row list) \<times> db" where
  "delete_workout e id_text userId d =
     (case pg_int4 e id_text of
        None \<Rightarrow> (Inl invalid_text_representation, d)
      | Some wid \<Rightarrow>
          (Inr (filter (\<lambda>w. w_id w = wid \<and> w_user_id w = Some userId) (workouts d)),
           d\<lparr>workouts := filter (\<lambda>w. \<not> (w_id w = wid \<and> w_user_id w = Some userId)) (workouts d)\<rparr>))"

section \<open>The handlers\<close>

text \<open>A row as the driver returns it and \<^verbatim>\<open>res.json\<close> sends it.\<close>

definition workout_json :: "workout_row \<Rightarrow> jsval" where
  "workout_json w =
     JObj [(''id'', JNum (w_id w)),
           (''user_id'', (case w_user_id w of None \<Rightarrow> JNull | Some u \<Rightarrow> JNum u)),
           (''exercise_id'', JStr (w_exercise_id w)),
           (''exercise_name'', JStr (w_exercise_name w)),
           (''sets_data'', w_sets_data w),
           (''workout_timestamp'', JStr (w_workout_timestamp w)),
           (''created_at'', JStr (w_created_at w))]"

definition user_json :: "user_row \<Rightarrow> jsval" where
  "user_json u =
     JObj [(''id'', JNum (u_id u)), (''username'', JStr (u_username u)), (''email'', JStr (u_email u))]"

definition token_user_body :: "env \<Rightarrow> user_row \<Rightarrow> jsval" where
  "token_user_body e u = JObj [(''token'', JStr (jwt_sign e (u_id u))), (''user'', user_json u)]"

text \<open>
  \<^verbatim>\<open>
  app.post('/api/auth/register', async (req, res) => {
    try {
      const { username, email, password } = req.body;
      if (!username || !email || !password) {
        return res.status(400).json({ error: 'All fields are required' });
      }
      const hashedPassword = await bcrypt.hash(password, 10);
      const result = await pool.query('INSERT INTO users ...', [username, email, hashedPassword]);
      const token = jwt.sign({ userId: result.rows[0].id }, process.env.JWT_SECRET, { expiresIn: '7d' });
      res.json({ token, user: result.rows[0] });
    } catch (err) {
      if (err.code === '23505') {
        res.status(400).json({ error: 'Username or email already exists' });
      } else {
        res.status(500).json({ error: 'Registration failed' });
      }
    }
  });
  \<close>
\<close>

definition register_catch :: "exn \<Rightarrow> response" where
  "register_catch err =
     (if err_code err = Some ''23505''
      then Response 400 (error_body ''Username or email already exists'')
      else Response 500 (error_body ''Registration failed''))"

definition post_auth_register :: "env \<Rightarrow> body \<Rightarrow> db \<Rightarrow> response \<times> db" where
  "post_auth_register e b d =
     (let username = field b ''username'';
          email = field b ''email'';
          password = field b ''password''
      in if falsy username \<or> falsy email \<or> falsy password
         then (Response 400 (error_body ''All fields are required''), d)
         else
           (case bcrypt_hash_js e password of
              Inl err \<Rightarrow> (register_catch err, d)
            | Inr hashedPassword \<Rightarrow>
                (case query_insert_user (now e) (prepareValue e username) (prepareValue e email)
                        (Some hashedPassword) d of
                   (Inl err, d') \<Rightarrow> (register_catch (PgError err), d')
                 | (Inr row, d') \<Rightarrow> (Response 200 (token_user_body e row), d'))))"

text \<open>
  \<^verbatim>\<open>
  app.post('/api/auth/login', async (req, res) => {
    try {
      const { email, password } = req.body;
      const result = await pool.query('SELECT * FROM users WHERE email = $1', [email]);
      if (result.rows.length === 0) {
        return res.status(401).json({ error: 'Invalid credentials' });
      }
      const user = result.rows[0];
      const isValid = await bcrypt.compare(password, user.password_hash);
      if (!isValid) {
        return res.status(401).json({ error: 'Invalid credentials' });
      }
      const token = jwt.sign({ userId: user.id }, process.env.JWT_SECRET, { expiresIn: '7d' });
      res.json({ token, user: { id: user.id, username: user.username, email: user.email } });
    } catch (err) {
      res.status(500).json({ error: 'Login failed' });
    }
  });
  \<close>
\<close>

definition post_auth_login :: "env \<Rightarrow> body \<Rightarrow> db \<Rightarrow> response \<times> db" where
  "post_auth_login e b d =
     (let email = field b ''email'';
          password = field b ''password''
      in case query_select_users_by_email (prepareValue e email) d of
           Inl err \<Rightarrow> (Response 500 (error_body ''Login failed''), d)
         | Inr [] \<Rightarrow> (Response 401 (error_body ''Invalid credentials''), d)
         | Inr (user # rest) \<Rightarrow>
             (case bcrypt_compare_js e password (u_password_hash user) of
                Inl err \<Rightarrow> (Response 500 (error_body ''Login failed''), d)
              | Inr isValid \<Rightarrow>
                  if \<not> isValid then (Response 401 (error_body ''Invalid credentials''), d)
                  else (Response 200 (token_user_body e user), d)))"

text \<open>
  \<^verbatim>\<open>
  app.get('/api/workouts', authMiddleware, async (req, res) => {
    try {
      const result = await pool.query(
        'SELECT * FROM workouts WHERE user_id = $1 ORDER BY workout_timestamp DESC', [req.userId]);
      res.json({ workouts: result.rows });
    } catch (err) {
      res.status(500).json({ error: 'Failed to fetch workouts' });
    }
  });
  \<close>
  The handlers behind the gate take \<^verbatim>\<open>req.userId\<close> as an argument.
\<close>

definition get_workouts :: "int \<Rightarrow> db \<Rightarrow> response \<times> db" where
  "get_workouts userId d =
     (Response 200 (JObj [(''workouts'', JArr (map workout_json (select_workouts userId d)))]), d)"

text \<open>
  \<^verbatim>\<open>
  app.post('/api/workouts', authMiddleware, async (req, res) => {
    try {
      const { exercise_id, exercise_name, sets, workout_timestamp } = req.body;
      if (!exercise_id || !exercise_name || !sets || !Array.isArray(sets)) {
        return res.status(400).json({ error: 'Invalid workout data' });
      }
      // Store timestamp exactly as received from frontend (local time string)
      const timestamp = workout_timestamp;
      const result = await pool.query('INSERT INTO workouts ...',
        [req.userId, exercise_id, exercise_name, JSON.stringify(sets), timestamp]);
      res.json({ workout: result.rows[0] });
    } catch (err) {
      res.status(500).json({ error: 'Failed to add workout' });
    }
  });
  \<close>
\<close>

definition post_workouts :: "env \<Rightarrow> int \<Rightarrow> body \<Rightarrow> db \<Rightarrow> response \<times> db" where
  "post_workouts e userId b d =
     (let exercise_id = field b ''exercise_id'';
          exercise_name = field b ''exercise_name'';
          sets = field b ''sets'';
          workout_timestamp = field b ''workout_timestamp''
      in if falsy exercise_id \<or> falsy exercise_name \<or> falsy sets \<or> \<not> isArray sets
         then (Response 400 (error_body ''Invalid workout data''), d)
         else
           (let timestamp = workout_timestamp
            in case query_insert_workout e (now e) userId (prepareValue e exercise_id)
                      (prepareValue e exercise_name) sets (prepareValue e timestamp) d of
                 (Inl err, d') \<Rightarrow> (Response 500 (error_body ''Failed to add workout''), d')
               | (Inr row, d') \<Rightarrow> (Response 200 (JObj [(''workout'', workout_json row)]), d')))"

text \<open>
  \<^verbatim>\<open>
  app.delete('/api/workouts/:id', authMiddleware, async (req, res) => {
    try {
      const result = await pool.query(
        'DELETE FROM workouts WHERE id = $1 AND user_id = $2 RETURNING *',
        [req.params.id, req.userId]);
      if (result.rows.length === 0) {
        return res.status(404).json({ error: 'Workout not found' });
      }
      res.json({ message: 'Workout deleted' });
    } catch (err) {
      res.status(500).json({ error: 'Failed to delete workout' });
    }
  });
  \<close>
\<close>

definition delete_workouts_id :: "env \<Rightarrow> int \<Rightarrow> string \<Rightarrow> db \<Rightarrow> response \<times> db" where
  "delete_workouts_id e userId id_text d =
     (case delete_workout e id_text userId d of
        (Inl err, d') \<Rightarrow> (Response 500 (error_body ''Failed to delete workout''), d')
      | (Inr rows, d') \<Rightarrow>
          if length rows = 0 then (Response 404 (error_body ''Workout not found''), d')
          else (Response 200 (JObj [(''message'', JStr ''Workout deleted'')]), d'))"

text \<open>A route behind \<open>authMiddleware\<close>: the handler runs only when the gate calls \<^verbatim>\<open>next()\<close>.\<close>

definition protected ::
  "env \<Rightarrow> request \<Rightarrow> (int \<Rightarrow> db \<Rightarrow> response \<times> db) \<Rightarrow> db \<Rightarrow> response \<times> db" where
  "protected e req handler d =
     (case authMiddleware e req of
        Inl res \<Rightarrow> (res, d)
      | Inr userId \<Rightarrow> handler userId d)"

definition route_get_workouts :: "env \<Rightarrow> request \<Rightarrow> db \<Rightarrow> response \<times> db" where
  "route_get_workouts e req = protected e req get_workouts"

definition route_post_workouts :: "env \<Rightarrow> request \<Rightarrow> db \<Rightarrow> response \<times> db" where
  "route_post_workouts e req = protected e req (\<lambda>userId. post_workouts e userId (req_body req))"

definition route_delete_workouts_id :: "env \<Rightarrow> request \<Rightarrow> db \<Rightarrow> response \<times> db" where
  "route_delete_workouts_id e req =
     protected e req (\<lambda>userId. delete_workouts_id e userId (params_id req))"

section \<open>The constraints of the schema as an invariant\<close>

text \<open>
  What \<^verbatim>\<open>SERIAL PRIMARY KEY\<close>, \<^verbatim>\<open>UNIQUE\<close> and \<^verbatim>\<open>REFERENCES users(id)\<close> keep true of the two
  tables: the ids in use lie below the sequences and are distinct, no two users share a
  username or an email, and a workout's \<open>user_id\<close> is the id of a user row.
\<close>

definition db_inv :: "db \<Rightarrow> bool" where
  "db_inv d \<longleftrightarrow>
     (\<forall>u \<in> set (users d). u_id u < users_id_seq d) \<and>
     (\<forall>w \<in> set (workouts d). w_id w < workouts_id_seq d) \<and>
     distinct (map u_id (users d)) \<and>
     distinct (map u_username (users d)) \<and>
     distinct (map u_email (users d)) \<and>
     distinct (map w_id (workouts d)) \<and>
     (\<forall>w \<in> set (workouts d). \<forall>userId. w_user_id w = Some userId \<longrightarrow> userId \<in> set (map u_id (users d)))"

text \<open>
  The requests of the API. The three workout routes carry the \<^verbatim>\<open>req.userId\<close> that the gate
  resolved; a state of the store is reachable when requests lead to it from the new database.
\<close>

datatype call =
    Register body
  | Login body
  | ListWorkouts int
  | AddWorkout int body
  | DeleteWorkout int string

fun serve :: "env \<Rightarrow> call \<Rightarrow> db \<Rightarrow> response \<times> db" where
  "serve e (Register b) d = post_auth_register e b d"
| "serve e (Login b) d = post_auth_login e b d"
| "serve e (ListWorkouts userId) d = get_workouts userId d"
| "serve e (AddWorkout userId b) d = post_workouts e userId b d"
| "serve e (DeleteWorkout userId id_text) d = delete_workouts_id e userId id_text d"

inductive reachable :: "db \<Rightarrow> bool" where
  fresh: "reachable createTables"
| served: "reachable d \<Longrightarrow> reachable (snd (serve e c d))"

section \<open>The order of strings\<close>

text \<open>
  The comparison of two strings character by character, by character code: the first
  difference decides, and a proper prefix comes first. It is the order on \<^typ>\<open>string\<close> by
  which \<open>select_workouts\<close> sorts (lemma \<open>lexical_le_iff\<close> below).
\<close>

fun lexical_le :: "string \<Rightarrow> string \<Rightarrow> bool" where
  "lexical_le [] t = True"
| "lexical_le (c # s) [] = False"
| "lexical_le (c # s) (c' # t) =
     ((of_char c :: nat) < of_char c' \<or> (c = c' \<and> lexical_le s t))"

section \<open>A small configuration for the examples\<close>

text \<open>
  Concrete stand-ins for the libraries, on which the theorems below are run: three tokens,
  for the users 1, 2 and 3, a hash that is the password behind a fixed prefix, and a \<^verbatim>\<open>JSONB\<close>
  column that takes every document and returns it as it was sent.
\<close>

definition demo_env :: env where
  "demo_env =
     \<lparr>bcrypt_hash = (\<lambda>s. ''$2a$10$'' @ s),
      bcrypt_compare = (\<lambda>s h. h = ''$2a$10$'' @ s),
      jwt_sign = (\<lambda>userId. if userId = 1 then ''token-1'' else if userId = 2 then ''token-2''
                           else ''token-3''),
      jwt_verify = (\<lambda>t. if t = ''token-1'' then Some 1 else if t = ''token-2'' then Some 2
                       else if t = ''token-3'' then Some 3 else None),
      pg_text = (\<lambda>v. ''?''),
      pg_int4 = (\<lambda>s. if s = ''1'' then Some 1 else if s = ''2'' then Some 2
                     else if s = ''4'' then Some 4 else None),
      jsonb_accepts = (\<lambda>v. True),
      jsonb = (\<lambda>v. v),
      now = ''2024-01-01 10:00:00''\<rparr>"

definition demo_request :: "string option \<Rightarrow> request" where
  "demo_request h = \<lparr>headers_authorization = h, req_body = Map.empty, params_id = ''1''\<rparr>"

text \<open>A store with two users and three workouts, and a fourth workout that user 1 submits.\<close>

definition alice :: user_row where
  "alice = \<lparr>u_id = 1, u_username = ''alice'', u_email = ''a@x.com'',
             u_password_hash = ''$2a$10$pw123456'', u_created_at = ''2024-01-01 09:00:00''\<rparr>"

definition bob :: user_row where
  "bob = \<lparr>u_id = 2, u_username = ''bob'', u_email = ''b@x.com'',
           u_password_hash = ''$2a$10$hunter22'', u_created_at = ''2024-01-01 09:30:00''\<rparr>"

definition squat :: workout_row where
  "squat = \<lparr>w_id = 1, w_user_id = Some 1, w_exercise_id = ''squat'', w_exercise_name = ''Squat'',
             w_sets_data = JArr [JObj [(''reps'', JNum 5), (''weight'', JNum 100)]],
             w_workout_timestamp = ''2024-01-10T9:00:00'', w_created_at = ''2024-01-10 09:05:00''\<rparr>"

definition bench :: workout_row where
  "bench = \<lparr>w_id = 2, w_user_id = Some 1, w_exercise_id = ''bench'', w_exercise_name = ''Bench press'',
             w_sets_data = JArr [JObj [(''reps'', JNum 8), (''weight'', JNum 60)]],
             w_workout_timestamp = ''2024-01-10T10:00:00'', w_created_at = ''2024-01-10 10:05:00''\<rparr>"

definition rowing :: workout_row where
  "rowing = \<lparr>w_id = 3, w_user_id = Some 2, w_exercise_id = ''row'', w_exercise_name = ''Barbell row'',
              w_sets_data = JArr [], w_workout_timestamp = ''2024-01-05T08:00:00'',
              w_created_at = ''2024-01-05 08:10:00''\<rparr>"

definition demo_db :: db where
  "demo_db = \<lparr>users = [alice, bob], workouts = [squat, bench, rowing],
               users_id_seq = 3, workouts_id_seq = 4\<rparr>"

definition deadlift_body :: body where
  "deadlift_body =
     [''exercise_id'' \<mapsto> JStr ''deadlift'', ''exercise_name'' \<mapsto> JStr ''Deadlift'',
      ''sets'' \<mapsto> JArr [JObj [(''reps'', JNum 3), (''weight'', JNum 140)]],
      ''workout_timestamp'' \<mapsto> JStr ''2024-01-11T18:30:00'']"

definition deadlift :: workout_row where
  "deadlift = \<lparr>w_id = 4, w_user_id = Some 1, w_exercise_id = ''deadlift'', w_exercise_name = ''Deadlift'',
             w_sets_data = JArr [JObj [(''reps'', JNum 3), (''weight'', JNum 140)]],
             w_workout_timestamp = ''2024-01-11T18:30:00'', w_created_at = ''2024-01-01 10:00:00''\<rparr>"




definition register_body :: "string \<Rightarrow> string \<Rightarrow> string \<Rightarrow> body" where
  "register_body un em pw = [''username'' \<mapsto> JStr un, ''email'' \<mapsto> JStr em, ''password'' \<mapsto> JStr pw]"


definition no_sets_body :: body where
  "no_sets_body = [''exercise_id'' \<mapsto> JStr ''squat'', ''exercise_name'' \<mapsto> JStr ''Squat'',
                   ''workout_timestamp'' \<mapsto> JStr ''2024-01-01T10:00:00'']"

definition sets_object_body :: body where
  "sets_object_body = [''exercise_id'' \<mapsto> JStr ''squat'', ''exercise_name'' \<mapsto> JStr ''Squat'',
                       ''sets'' \<mapsto> JObj [(''reps'', JNum 5)],
                       ''workout_timestamp'' \<mapsto> JStr ''2024-01-01T10:00:00'']"


section \<open>Properties of the auth gate\<close>

text \<open>What \<open>split\<close> returns on a string with no separator, and up to the first one.\<close>

lemma split_not_Nil: "split sep s \<noteq> []"
  by (induction s) (auto split: list.splits)

lemma split_no_sep: "sep \<notin> set s \<Longrightarrow> split sep s = [s]"
  by (induction s) auto

lemma split_at_sep: "sep \<notin> set a \<Longrightarrow> split sep (a @ sep # r) = a # split sep r"
  by (induction a) auto

lemma split_second:
  assumes "sep \<notin> set a" "sep \<notin> set t" "rest = [] \<or> hd rest = sep"
  shows "index (split sep (a @ sep # t @ rest)) 1 = Some t"
proof (cases rest)
  case Nil
  then show ?thesis using assms by (simp add: split_at_sep split_no_sep index_def)
next
  case (Cons c r)
  with assms have "rest = sep # r" by auto
  then show ?thesis using assms by (simp add: split_at_sep index_def)
qed

lemma dropWhile_space:
  "dropWhile (\<lambda>c. c \<noteq> sep) xs = [] \<or> hd (dropWhile (\<lambda>c. c \<noteq> sep) xs) = sep"
  using hd_dropWhile [of "\<lambda>c. c \<noteq> sep" xs] by auto

lemma header_cases:
  "CHR '' '' \<notin> set h \<or>
   (\<exists>a t rest. h = a @ CHR '' '' # t @ rest \<and> CHR '' '' \<notin> set a \<and> CHR '' '' \<notin> set t \<and>
      (rest = [] \<or> hd rest = CHR '' ''))"
proof (cases "CHR '' '' \<in> set h")
  case False
  then show ?thesis by simp
next
  case True
  define a where "a = takeWhile (\<lambda>c. c \<noteq> CHR '' '') h"
  define r where "r = dropWhile (\<lambda>c. c \<noteq> CHR '' '') h"
  have h: "h = a @ r" by (simp add: a_def r_def)
  have a: "CHR '' '' \<notin> set a" unfolding a_def by (auto dest: set_takeWhileD)
  have "r \<noteq> []" using True unfolding r_def by (simp add: dropWhile_eq_Nil_conv)
  moreover have "r = [] \<or> hd r = CHR '' ''" unfolding r_def by (rule dropWhile_space)
  ultimately obtain r' where r': "r = CHR '' '' # r'" by (cases r) auto
  define t where "t = takeWhile (\<lambda>c. c \<noteq> CHR '' '') r'"
  define rest where "rest = dropWhile (\<lambda>c. c \<noteq> CHR '' '') r'"
  have 1: "r' = t @ rest" by (simp add: t_def rest_def)
  have 2: "CHR '' '' \<notin> set t" unfolding t_def by (auto dest: set_takeWhileD)
  have 3: "rest = [] \<or> hd rest = CHR '' ''" unfolding rest_def by (rule dropWhile_space)
  have "h = a @ CHR '' '' # t @ rest" using h r' 1 by simp
  with a 2 3 show ?thesis by blast
qed

text \<open>
  Claim C7. On a protected route the gate answers 401 \<^verbatim>\<open>{error: "No token provided"}\<close> when
  the request has no authorization header, when the header has no space (no second piece), and
  when the piece after the first space is empty; when that piece, the token, is not empty and
  \<^verbatim>\<open>jwt.verify\<close> rejects it, the answer is 401 \<^verbatim>\<open>{error: "Invalid token"}\<close>; otherwise the
  user id of the token becomes \<^verbatim>\<open>req.userId\<close> and the handler runs with it. A response of the
  gate ends the request with the store untouched.
\<close>

theorem authMiddleware_contract:
  "(headers_authorization req = None \<longrightarrow>
      authMiddleware e req = Inl (Response 401 (error_body ''No token provided'')))
   \<and> (\<forall>h. headers_authorization req = Some h \<and> CHR '' '' \<notin> set h \<longrightarrow>
      authMiddleware e req = Inl (Response 401 (error_body ''No token provided'')))
   \<and> (\<forall>a t rest. headers_authorization req = Some (a @ CHR '' '' # t @ rest) \<and>
         CHR '' '' \<notin> set a \<and> CHR '' '' \<notin> set t \<and> (rest = [] \<or> hd rest = CHR '' '') \<longrightarrow>
      authMiddleware e req =
        (if t = [] then Inl (Response 401 (error_body ''No token provided''))
         else (case jwt_verify e t of
                 None \<Rightarrow> Inl (Response 401 (error_body ''Invalid token''))
               | Some userId \<Rightarrow> Inr userId)))
   \<and> (\<forall>res. authMiddleware e req = Inl res \<longrightarrow> protected e req handler d = (res, d))
   \<and> (\<forall>userId. authMiddleware e req = Inr userId \<longrightarrow> protected e req handler d = handler userId d)"
proof -
  have absent: "headers_authorization req = None \<Longrightarrow>
      authMiddleware e req = Inl (Response 401 (error_body ''No token provided''))"
    by (simp add: authMiddleware_def token_of_def)
  have one_piece: "authMiddleware e req = Inl (Response 401 (error_body ''No token provided''))"
    if "headers_authorization req = Some h" "CHR '' '' \<notin> set h" for h
    using that by (simp add: authMiddleware_def token_of_def split_no_sep index_def)
  have second: "authMiddleware e req =
        (if t = [] then Inl (Response 401 (error_body ''No token provided''))
         else (case jwt_verify e t of
                 None \<Rightarrow> Inl (Response 401 (error_body ''Invalid token''))
               | Some userId \<Rightarrow> Inr userId))"
    if "headers_authorization req = Some (a @ CHR '' '' # t @ rest)" "CHR '' '' \<notin> set a"
       "CHR '' '' \<notin> set t" "rest = [] \<or> hd rest = CHR '' ''" for a t rest
  proof -
    have "token_of req = Some t"
      using that split_second [of "CHR '' ''" a t rest] by (simp add: token_of_def)
    then show ?thesis by (simp add: authMiddleware_def)
  qed
  have stop: "protected e req handler d = (res, d)" if "authMiddleware e req = Inl res" for res
    using that by (simp add: protected_def)
  have go: "protected e req handler d = handler userId d" if "authMiddleware e req = Inr userId" for userId
    using that by (simp add: protected_def)
  show ?thesis using absent one_piece second stop go by blast
qed

theorem authMiddleware_contract_witness:
  "authMiddleware demo_env (demo_request (Some ''Bearer token-2'')) = Inr 2 \<and>
   authMiddleware demo_env (demo_request (Some ''Bearer forged'')) =
     Inl (Response 401 (error_body ''Invalid token'')) \<and>
   authMiddleware demo_env (demo_request (Some ''Bearer '')) =
     Inl (Response 401 (error_body ''No token provided'')) \<and>
   authMiddleware demo_env (demo_request (Some ''Bearer'')) =
     Inl (Response 401 (error_body ''No token provided'')) \<and>
   authMiddleware demo_env (demo_request None) =
     Inl (Response 401 (error_body ''No token provided'')) \<and>
   protected demo_env (demo_request (Some ''Bearer token-2'')) get_workouts createTables =
     get_workouts 2 createTables"
proof -
  have 1: "authMiddleware demo_env (demo_request (Some ''Bearer token-2'')) = Inr 2"
    using authMiddleware_contract [of "demo_request (Some ''Bearer token-2'')" demo_env,
        THEN conjunct2, THEN conjunct2, THEN conjunct1, rule_format, of "''Bearer''" "''token-2''" "[]"]
    by (simp add: demo_request_def demo_env_def)
  have 2: "authMiddleware demo_env (demo_request (Some ''Bearer forged'')) =
     Inl (Response 401 (error_body ''Invalid token''))"
    using authMiddleware_contract [of "demo_request (Some ''Bearer forged'')" demo_env,
        THEN conjunct2, THEN conjunct2, THEN conjunct1, rule_format, of "''Bearer''" "''forged''" "[]"]
    by (simp add: demo_request_def demo_env_def)
  have 3: "authMiddleware demo_env (demo_request (Some ''Bearer '')) =
     Inl (Response 401 (error_body ''No token provided''))"
    using authMiddleware_contract [of "demo_request (Some ''Bearer '')" demo_env,
        THEN conjunct2, THEN conjunct2, THEN conjunct1, rule_format, of "''Bearer''" "[]" "[]"]
    by (simp add: demo_request_def)
  have 4: "authMiddleware demo_env (demo_request (Some ''Bearer'')) =
     Inl (Response 401 (error_body ''No token provided''))"
    using authMiddleware_contract [of "demo_request (Some ''Bearer'')" demo_env,
        THEN conjunct2, THEN conjunct1, rule_format, of "''Bearer''"]
    by (simp add: demo_request_def)
  have 5: "authMiddleware demo_env (demo_request None) =
     Inl (Response 401 (error_body ''No token provided''))"
    using authMiddleware_contract [of "demo_request None" demo_env, THEN conjunct1]
    by (simp add: demo_request_def)
  have 6: "protected demo_env (demo_request (Some ''Bearer token-2'')) get_workouts createTables =
     get_workouts 2 createTables"
    using authMiddleware_contract [of "demo_request (Some ''Bearer token-2'')" demo_env get_workouts createTables,
        THEN conjunct2, THEN conjunct2, THEN conjunct2, THEN conjunct2, rule_format, OF 1] .
  show ?thesis using 1 2 3 4 5 6 by simp
qed


lemma routes_rejected:
  assumes "authMiddleware e req = Inl res"
  shows "route_get_workouts e req d = (res, d)"
    and "route_post_workouts e req d = (res, d)"
    and "route_delete_workouts_id e req d = (res, d)"
  using assms
  by (simp_all add: route_get_workouts_def route_post_workouts_def route_delete_workouts_id_def
        protected_def)

section \<open>Every reachable state satisfies the schema's constraints\<close>

lemma db_inv_createTables: "db_inv createTables"
  by (simp add: db_inv_def createTables_def)

lemma db_inv_insert_user:
  assumes "db_inv d"
  shows "db_inv (snd (insert_user ts un em ph d))"
  using assms
  by (auto simp: insert_user_def db_inv_def Let_def split: sum.splits option.splits)

lemma db_inv_insert_workout:
  assumes "db_inv d"
  shows "db_inv (snd (insert_workout ts userId ei en sd wt d))"
  using assms
  by (auto simp: insert_workout_def db_inv_def Let_def split: sum.splits option.splits)

lemma db_inv_delete_workout:
  assumes "db_inv d"
  shows "db_inv (snd (delete_workout e p userId d))"
  using assms
  by (auto simp: delete_workout_def db_inv_def distinct_map_filter split: option.splits)


lemma query_insert_user_accepted:
  assumes "accepts_text un" "accepts_text em" "accepts_text ph"
  shows "query_insert_user ts un em ph d = insert_user ts un em ph d"
  using assms by (simp add: query_insert_user_def)

lemma query_insert_user_rejected:
  assumes "\<not> (accepts_text un \<and> accepts_text em \<and> accepts_text ph)"
  shows "query_insert_user ts un em ph d = (Inl character_not_in_repertoire, d)"
  using assms by (auto simp: query_insert_user_def)

lemma query_insert_workout_accepted:
  assumes "accepts_text ei" "accepts_text en" "jsonb_accepts e sets" "accepts_text wt"
  shows "query_insert_workout e ts userId ei en sets wt d =
           insert_workout ts userId ei en (jsonb e sets) wt d"
  using assms by (simp add: query_insert_workout_def)

lemma query_insert_workout_rejected:
  assumes "\<not> (accepts_text ei \<and> accepts_text en \<and> jsonb_accepts e sets \<and> accepts_text wt)"
  shows "\<exists>err. query_insert_workout e ts userId ei en sets wt d = (Inl err, d)"
  using assms by (auto simp: query_insert_workout_def)

lemma db_inv_query_insert_user:
  assumes "db_inv d"
  shows "db_inv (snd (query_insert_user ts un em ph d))"
proof (cases "accepts_text un \<and> accepts_text em \<and> accepts_text ph")
  case True
  then show ?thesis using assms by (simp add: query_insert_user_accepted db_inv_insert_user)
next
  case False
  then show ?thesis using assms by (simp add: query_insert_user_rejected)
qed

lemma db_inv_query_insert_workout:
  assumes "db_inv d"
  shows "db_inv (snd (query_insert_workout e ts userId ei en sets wt d))"
proof (cases "accepts_text ei \<and> accepts_text en \<and> jsonb_accepts e sets \<and> accepts_text wt")
  case True
  then show ?thesis using assms by (simp add: query_insert_workout_accepted db_inv_insert_workout)
next
  case False
  from query_insert_workout_rejected [OF this] obtain err where
    "query_insert_workout e ts userId ei en sets wt d = (Inl err, d)" by blast
  then show ?thesis using assms by simp
qed

lemma db_inv_post_auth_register:
  assumes "db_inv d"
  shows "db_inv (snd (post_auth_register e b d))"
proof -
  have "snd (post_auth_register e b d) = d \<or>
        (\<exists>ph. snd (post_auth_register e b d) =
           snd (query_insert_user (now e) (prepareValue e (field b ''username''))
                  (prepareValue e (field b ''email'')) ph d))"
    by (auto simp: post_auth_register_def Let_def split: sum.splits prod.splits)
       (metis snd_conv)+
  then show ?thesis using assms db_inv_query_insert_user by auto
qed

lemma db_inv_post_auth_login: "db_inv d \<Longrightarrow> db_inv (snd (post_auth_login e b d))"
  by (auto simp: post_auth_login_def Let_def split: sum.splits list.splits)

lemma db_inv_get_workouts: "db_inv d \<Longrightarrow> db_inv (snd (get_workouts userId d))"
  by (simp add: get_workouts_def)

lemma db_inv_post_workouts:
  assumes "db_inv d"
  shows "db_inv (snd (post_workouts e userId b d))"
proof -
  have "snd (post_workouts e userId b d) = d \<or>
        snd (post_workouts e userId b d) =
           snd (query_insert_workout e (now e) userId (prepareValue e (field b ''exercise_id''))
                  (prepareValue e (field b ''exercise_name'')) (field b ''sets'')
                  (prepareValue e (field b ''workout_timestamp'')) d)"
    by (auto simp: post_workouts_def Let_def split: sum.splits prod.splits)
  then show ?thesis using assms db_inv_query_insert_workout by auto
qed

lemma db_inv_delete_workouts_id:
  assumes "db_inv d"
  shows "db_inv (snd (delete_workouts_id e userId p d))"
proof -
  have "snd (delete_workouts_id e userId p d) = snd (delete_workout e p userId d)"
    by (auto simp: delete_workouts_id_def split: sum.splits prod.splits)
  then show ?thesis using assms db_inv_delete_workout by auto
qed

lemma db_inv_serve: "db_inv d \<Longrightarrow> db_inv (snd (serve e c d))"
  by (cases c)
     (simp_all add: db_inv_post_auth_register db_inv_post_auth_login db_inv_get_workouts
        db_inv_post_workouts db_inv_delete_workouts_id)

lemma reachable_db_inv: "reachable d \<Longrightarrow> db_inv d"
  by (induction rule: reachable.induct) (simp_all add: db_inv_createTables db_inv_serve)

section \<open>Listing, creating and deleting workouts\<close>

lemma lexical_le_iff: "lexical_le s t \<longleftrightarrow> s \<le> t"
  by (induction s t rule: lexical_le.induct) (auto simp: less_char_def)


lemma set_select_workouts:
  "set (select_workouts userId d) = {w \<in> set (workouts d). w_user_id w = Some userId}"
  by (auto simp: select_workouts_def)

lemma mset_select_workouts:
  "mset (select_workouts userId d) =
     filter_mset (\<lambda>w. w_user_id w = Some userId) (mset (workouts d))"
  by (simp add: select_workouts_def)

lemma sorted_desc_select_workouts:
  "sorted_wrt (\<lambda>v w. w_workout_timestamp w \<le> w_workout_timestamp v) (select_workouts userId d)"
proof -
  let ?rows = "sort_key w_workout_timestamp (filter (\<lambda>w. w_user_id w = Some userId) (workouts d))"
  have "sorted (map w_workout_timestamp ?rows)" by simp
  then have "sorted_wrt (\<lambda>v w. w_workout_timestamp v \<le> w_workout_timestamp w) ?rows"
    by (simp add: sorted_wrt_map)
  then show ?thesis
    by (simp add: select_workouts_def sorted_wrt_rev)
qed


lemma delete_workouts_id_result:
  assumes "pg_int4 e p = Some wid"
  shows "delete_workouts_id e userId p d =
     (if \<exists>w \<in> set (workouts d). w_id w = wid \<and> w_user_id w = Some userId
      then (Response 200 (JObj [(''message'', JStr ''Workout deleted'')]),
            d\<lparr>workouts := filter (\<lambda>w. \<not> (w_id w = wid \<and> w_user_id w = Some userId)) (workouts d)\<rparr>)
      else (Response 404 (error_body ''Workout not found''), d))"
proof (cases "\<exists>w \<in> set (workouts d). w_id w = wid \<and> w_user_id w = Some userId")
  case True
  then have "filter (\<lambda>w. w_id w = wid \<and> w_user_id w = Some userId) (workouts d) \<noteq> []"
    by (auto simp: filter_empty_conv)
  with True assms show ?thesis
    by (simp add: delete_workouts_id_def delete_workout_def)
next
  case False
  then have 1: "filter (\<lambda>w. w_id w = wid \<and> w_user_id w = Some userId) (workouts d) = []"
    by (auto simp: filter_empty_conv)
  from False have 2: "filter (\<lambda>w. \<not> (w_id w = wid \<and> w_user_id w = Some userId)) (workouts d) = workouts d"
    by (auto simp: filter_id_conv)
  from False assms 1 2 show ?thesis
    by (simp add: delete_workouts_id_def delete_workout_def)
qed

lemma delete_workouts_id_bad_id:
  assumes "pg_int4 e p = None"
  shows "delete_workouts_id e userId p d = (Response 500 (error_body ''Failed to delete workout''), d)"
  using assms by (simp add: delete_workouts_id_def delete_workout_def)

lemma distinct_id_owner:
  assumes "distinct (map w_id ws)" "v \<in> set ws" "w \<in> set ws" "w_id v = w_id w"
  shows "v = w"
  using assms by (meson distinct_map inj_onD)

lemma demo_rows:
  "w_id squat = 1" "w_user_id squat = Some 1" "w_workout_timestamp squat = ''2024-01-10T9:00:00''"
  "w_id bench = 2" "w_user_id bench = Some 1" "w_workout_timestamp bench = ''2024-01-10T10:00:00''"
  "w_id rowing = 3" "w_user_id rowing = Some 2" "w_workout_timestamp rowing = ''2024-01-05T08:00:00''"
  "w_id deadlift = 4" "w_user_id deadlift = Some 1"
  "w_workout_timestamp deadlift = ''2024-01-11T18:30:00''"
  "u_id alice = 1" "u_username alice = ''alice''" "u_email alice = ''a@x.com''"
  "u_password_hash alice = ''$2a$10$pw123456''"
  "u_id bob = 2" "u_username bob = ''bob''" "u_email bob = ''b@x.com''"
  "u_password_hash bob = ''$2a$10$hunter22''"
  by (simp_all add: squat_def bench_def rowing_def deadlift_def alice_def bob_def)

lemma demo_tables:
  "users demo_db = [alice, bob]" "workouts demo_db = [squat, bench, rowing]"
  "users_id_seq demo_db = 3" "workouts_id_seq demo_db = 4"
  by (simp_all add: demo_db_def)










text \<open>
  Claim C2. The list operation answers 200 with the caller's workouts, each exactly once, in
  descending order of \<open>workout_timestamp\<close> compared as a string, character by character
  (\<open>lexical_le\<close>), with no reading of the value as a date or time.
\<close>

theorem get_workouts_sorted_by_timestamp_string:
  "get_workouts userId d =
     (Response 200 (JObj [(''workouts'', JArr (map workout_json (select_workouts userId d)))]), d) \<and>
   mset (select_workouts userId d) =
     filter_mset (\<lambda>w. w_user_id w = Some userId) (mset (workouts d)) \<and>
   sorted_wrt (\<lambda>v w. lexical_le (w_workout_timestamp w) (w_workout_timestamp v))
     (select_workouts userId d)"
  using sorted_desc_select_workouts [of userId d]
  by (simp add: get_workouts_def mset_select_workouts lexical_le_iff)

lemma select_workouts_demo: "select_workouts 1 demo_db = [squat, bench]"
  by (simp add: select_workouts_def demo_tables demo_rows)

theorem get_workouts_sorted_by_timestamp_string_witness:
  "select_workouts 1 demo_db = [squat, bench] \<and>
   w_workout_timestamp squat = ''2024-01-10T9:00:00'' \<and>
   w_workout_timestamp bench = ''2024-01-10T10:00:00'' \<and>
   lexical_le ''2024-01-10T10:00:00'' ''2024-01-10T9:00:00'' \<and>
   \<not> lexical_le ''2024-01-10T9:00:00'' ''2024-01-10T10:00:00''"
proof -
  have "sorted_wrt (\<lambda>v w. lexical_le (w_workout_timestamp w) (w_workout_timestamp v))
     (select_workouts 1 demo_db)"
    using get_workouts_sorted_by_timestamp_string [of 1 demo_db] by (simp only:)
  then have 1: "lexical_le ''2024-01-10T10:00:00'' ''2024-01-10T9:00:00''"
    by (simp add: select_workouts_demo demo_rows)
  have 2: "\<not> lexical_le ''2024-01-10T9:00:00'' ''2024-01-10T10:00:00''"
    by simp
  show ?thesis by (intro conjI select_workouts_demo demo_rows 1 2)
qed

text \<open>
  Claim C6. A delete by user \<open>u\<close> of the workout id \<open>wid\<close> (the integer that the path parameter
  denotes) removes the rows with that id and owner \<open>u\<close>, and nothing else, when there is such a
  row, and answers 200; when there is none, because no row has the id or because the row
  belongs to another user, the answer is the one 404 \<^verbatim>\<open>{error: "Workout not found"}\<close> and the
  store is unchanged. So the store changes exactly when a row with id \<open>wid\<close> and owner \<open>u\<close>
  exists; with distinct primary keys that row is the only one removed.
\<close>

theorem delete_workouts_id_only_own:
  assumes "pg_int4 e p = Some wid"
  shows
    "((\<exists>w \<in> set (workouts d). w_id w = wid \<and> w_user_id w = Some u) \<longrightarrow>
        delete_workouts_id e u p d =
          (Response 200 (JObj [(''message'', JStr ''Workout deleted'')]),
           d\<lparr>workouts := filter (\<lambda>w. \<not> (w_id w = wid \<and> w_user_id w = Some u)) (workouts d)\<rparr>))
     \<and> (\<not> (\<exists>w \<in> set (workouts d). w_id w = wid \<and> w_user_id w = Some u) \<longrightarrow>
        delete_workouts_id e u p d = (Response 404 (error_body ''Workout not found''), d))
     \<and> (snd (delete_workouts_id e u p d) \<noteq> d \<longleftrightarrow>
          (\<exists>w \<in> set (workouts d). w_id w = wid \<and> w_user_id w = Some u))
     \<and> (\<forall>w \<in> set (workouts d). w_id w = wid \<and> w_user_id w = Some u \<and> db_inv d \<longrightarrow>
          workouts (snd (delete_workouts_id e u p d)) = remove1 w (workouts d))"
proof -
  let ?own = "\<lambda>w. w_id w = wid \<and> w_user_id w = Some u"
  have changed: "d\<lparr>workouts := filter (\<lambda>w. \<not> ?own w) (workouts d)\<rparr> \<noteq> d" if "\<exists>w \<in> set (workouts d). ?own w"
  proof
    assume "d\<lparr>workouts := filter (\<lambda>w. \<not> ?own w) (workouts d)\<rparr> = d"
    then have "workouts (d\<lparr>workouts := filter (\<lambda>w. \<not> ?own w) (workouts d)\<rparr>) = workouts d"
      by (simp only:)
    then have "filter (\<lambda>w. \<not> ?own w) (workouts d) = workouts d" by simp
    with that show False by (auto simp: filter_id_conv)
  qed
  have single: "filter (\<lambda>w. \<not> ?own w) (workouts d) = remove1 w (workouts d)"
    if "w \<in> set (workouts d)" "?own w" "db_inv d" for w
  proof -
    from that(3) have dist: "distinct (map w_id (workouts d))" by (simp add: db_inv_def)
    then have "distinct (workouts d)" by (simp add: distinct_map)
    then have "remove1 w (workouts d) = filter (\<lambda>v. w \<noteq> v) (workouts d)"
      by (simp add: distinct_remove1_removeAll removeAll_filter_not_eq) 
    also have "\<dots> = filter (\<lambda>v. \<not> ?own v) (workouts d)"
      using that dist by (intro filter_cong) (auto dest: distinct_id_owner)
    finally show ?thesis by simp
  qed
  show ?thesis
    using assms changed single by (auto simp: delete_workouts_id_result)
qed

theorem delete_workouts_id_only_own_witness:
  "delete_workouts_id demo_env 1 ''2'' demo_db =
     (Response 200 (JObj [(''message'', JStr ''Workout deleted'')]),
      demo_db\<lparr>workouts := [squat, rowing]\<rparr>) \<and>
   delete_workouts_id demo_env 2 ''2'' demo_db =
     (Response 404 (error_body ''Workout not found''), demo_db) \<and>
   delete_workouts_id demo_env 1 ''2'' (demo_db\<lparr>workouts := [squat, rowing]\<rparr>) =
     (Response 404 (error_body ''Workout not found''), demo_db\<lparr>workouts := [squat, rowing]\<rparr>)"
proof -
  have p: "pg_int4 demo_env ''2'' = Some 2" by (simp add: demo_env_def)
  have 1: "delete_workouts_id demo_env 1 ''2'' demo_db =
     (Response 200 (JObj [(''message'', JStr ''Workout deleted'')]),
      demo_db\<lparr>workouts := [squat, rowing]\<rparr>)"
    using delete_workouts_id_only_own [OF p, of demo_db 1, THEN conjunct1]
    by (simp add: demo_tables demo_rows)
  have 2: "delete_workouts_id demo_env 2 ''2'' demo_db =
     (Response 404 (error_body ''Workout not found''), demo_db)"
    using delete_workouts_id_only_own [OF p, of demo_db 2, THEN conjunct2, THEN conjunct1]
    by (simp add: demo_tables demo_rows)
  have 3: "delete_workouts_id demo_env 1 ''2'' (demo_db\<lparr>workouts := [squat, rowing]\<rparr>) =
     (Response 404 (error_body ''Workout not found''), demo_db\<lparr>workouts := [squat, rowing]\<rparr>)"
    using delete_workouts_id_only_own [OF p, of "demo_db\<lparr>workouts := [squat, rowing]\<rparr>" 1,
        THEN conjunct2, THEN conjunct1]
    by (simp add: demo_rows)
  show ?thesis by (intro conjI 1 2 3)
qed

section \<open>Registration and login\<close>























lemma varchar_cases:
  "varchar n (Some s) = Inl string_data_right_truncation \<or> (\<exists>s'. varchar n (Some s) = Inr (Some s'))"
  by (simp add: varchar_def)

lemma prepareValue_truthy: "\<not> falsy v \<Longrightarrow> \<exists>s. prepareValue e v = Some s"
  by (cases v) (simp_all add: prepareValue_def)





text \<open>The five ways in which a registration ends.\<close>

lemma register_missing:
  assumes "falsy (field b ''username'') \<or> falsy (field b ''email'') \<or> falsy (field b ''password'')"
  shows "post_auth_register e b d = (Response 400 (error_body ''All fields are required''), d)"
  using assms by (auto simp: post_auth_register_def)






text \<open>
  Every registration with the three fields present ends in one of these ways: the password is
  no string, or a parameter is rejected or too long, or all three are stored as some \<open>un\<close>, \<open>em\<close>
  and \<open>ph\<close>.
\<close>

lemma register_cases:
  assumes "\<not> falsy (field b ''username'')" "\<not> falsy (field b ''email'')" "\<not> falsy (field b ''password'')"
  shows "(\<forall>pw. field b ''password'' \<noteq> JStr pw) \<or>
         (\<exists>pw. field b ''password'' = JStr pw \<and>
            (\<not> (accepts_text (prepareValue e (field b ''username'')) \<and>
                accepts_text (prepareValue e (field b ''email'')) \<and>
                accepts_text (Some (bcrypt_hash e pw))) \<or>
             varchar 50 (prepareValue e (field b ''username'')) = Inl string_data_right_truncation \<or>
             varchar 100 (prepareValue e (field b ''email'')) = Inl string_data_right_truncation \<or>
             varchar 255 (Some (bcrypt_hash e pw)) = Inl string_data_right_truncation \<or>
             (\<exists>un em ph.
                accepts_text (prepareValue e (field b ''username'')) \<and>
                accepts_text (prepareValue e (field b ''email'')) \<and>
                accepts_text (Some (bcrypt_hash e pw)) \<and>
                varchar 50 (prepareValue e (field b ''username'')) = Inr (Some un) \<and>
                varchar 100 (prepareValue e (field b ''email'')) = Inr (Some em) \<and>
                varchar 255 (Some (bcrypt_hash e pw)) = Inr (Some ph))))"
proof (cases "\<forall>pw. field b ''password'' \<noteq> JStr pw")
  case True
  then show ?thesis by simp
next
  case False
  then obtain pw where pw: "field b ''password'' = JStr pw" by blast
  from prepareValue_truthy [OF assms(1), of e] obtain u where u: "prepareValue e (field b ''username'') = Some u"
    by blast
  from prepareValue_truthy [OF assms(2), of e] obtain m where m: "prepareValue e (field b ''email'') = Some m"
    by blast
  from varchar_cases [of 50 u] varchar_cases [of 100 m] varchar_cases [of 255 "bcrypt_hash e pw"]
  have "\<not> (accepts_text (Some u) \<and> accepts_text (Some m) \<and> accepts_text (Some (bcrypt_hash e pw))) \<or>
        varchar 50 (Some u) = Inl string_data_right_truncation \<or>
        varchar 100 (Some m) = Inl string_data_right_truncation \<or>
        varchar 255 (Some (bcrypt_hash e pw)) = Inl string_data_right_truncation \<or>
        (\<exists>un em ph.
           accepts_text (Some u) \<and> accepts_text (Some m) \<and> accepts_text (Some (bcrypt_hash e pw)) \<and>
           varchar 50 (Some u) = Inr (Some un) \<and> varchar 100 (Some m) = Inr (Some em) \<and>
           varchar 255 (Some (bcrypt_hash e pw)) = Inr (Some ph))"
    by (elim disjE exE) simp_all
  with pw u m show ?thesis by (intro disjI2 exI [of _ pw]) simp
qed







section \<open>Validation of a submitted workout\<close>

lemma post_workouts_invalid:
  assumes "falsy (field b ''exercise_id'') \<or> falsy (field b ''exercise_name'') \<or>
           falsy (field b ''sets'') \<or> \<not> isArray (field b ''sets'')"
  shows "post_workouts e userId b d = (Response 400 (error_body ''Invalid workout data''), d)"
  using assms by (auto simp: post_workouts_def)

lemma field_absent: "b k = None \<Longrightarrow> field b k = JUndefined"
  by (simp add: field_def)

lemma post_workouts_400_unchanged:
  assumes "status (fst (post_workouts e userId b d)) = 400"
  shows "snd (post_workouts e userId b d) = d"
  using assms
  by (auto simp: post_workouts_def Let_def split: if_splits prod.splits sum.splits)

text \<open>
  Claim C5. Creating a workout is answered 400 \<^verbatim>\<open>{error: "Invalid workout data"}\<close> when
  \<open>exercise_id\<close>, \<open>exercise_name\<close> or \<open>sets\<close> is absent from the body, and when \<open>sets\<close> is not an
  array; whenever the answer is 400 the store is as it was, so no workout row is created.
\<close>

theorem post_workouts_validation:
  "((b ''exercise_id'' = None \<or> b ''exercise_name'' = None \<or> b ''sets'' = None \<or>
     \<not> isArray (field b ''sets'')) \<longrightarrow>
      post_workouts e userId b d = (Response 400 (error_body ''Invalid workout data''), d))
   \<and> (status (fst (post_workouts e userId b d)) = 400 \<longrightarrow>
        snd (post_workouts e userId b d) = d \<and>
        workouts (snd (post_workouts e userId b d)) = workouts d)"
proof (intro conjI impI)
  assume "b ''exercise_id'' = None \<or> b ''exercise_name'' = None \<or> b ''sets'' = None \<or>
     \<not> isArray (field b ''sets'')"
  then have "falsy (field b ''exercise_id'') \<or> falsy (field b ''exercise_name'') \<or>
           falsy (field b ''sets'') \<or> \<not> isArray (field b ''sets'')"
    by (auto simp: field_absent)
  then show "post_workouts e userId b d = (Response 400 (error_body ''Invalid workout data''), d)"
    by (rule post_workouts_invalid)
next
  assume "status (fst (post_workouts e userId b d)) = 400"
  then show "snd (post_workouts e userId b d) = d" by (rule post_workouts_400_unchanged)
  then show "workouts (snd (post_workouts e userId b d)) = workouts d" by simp
qed

theorem post_workouts_validation_witness:
  "post_workouts demo_env 1 no_sets_body demo_db =
     (Response 400 (error_body ''Invalid workout data''), demo_db) \<and>
   post_workouts demo_env 1 sets_object_body demo_db =
     (Response 400 (error_body ''Invalid workout data''), demo_db) \<and>
   workouts (snd (post_workouts demo_env 1 sets_object_body demo_db)) = workouts demo_db"
proof -
  have 1: "post_workouts demo_env 1 no_sets_body demo_db =
     (Response 400 (error_body ''Invalid workout data''), demo_db)"
    using post_workouts_validation [of no_sets_body demo_env 1 demo_db, THEN conjunct1]
    by (simp add: no_sets_body_def)
  have 2: "post_workouts demo_env 1 sets_object_body demo_db =
     (Response 400 (error_body ''Invalid workout data''), demo_db)"
    using post_workouts_validation [of sets_object_body demo_env 1 demo_db, THEN conjunct1]
    by (simp add: sets_object_body_def field_def)
  have 3: "workouts (snd (post_workouts demo_env 1 sets_object_body demo_db)) = workouts demo_db"
    using post_workouts_validation [of sets_object_body demo_env 1 demo_db, THEN conjunct2] 2
    by simp
  show ?thesis by (intro conjI 1 2 3)
qed







lemma field_upd_same: "field (b(k \<mapsto> v)) k = v"
  by (simp add: field_def)

lemma field_del_same: "field (b(k := None)) k = JUndefined"
  by (simp add: field_def)

text \<open>
  Claim C10. The validations test falsiness, not presence: a registration in which
  \<open>username\<close>, \<open>email\<close> or \<open>password\<close> is the empty string, and a workout submission in which
  \<open>exercise_id\<close>, \<open>exercise_name\<close> or \<open>sets\<close> is the empty string, is answered with the same 400
  as the request without that field, whatever the rest of the body, and leaves the store as it
  was.
\<close>

theorem empty_string_treated_as_absent:
  "(k \<in> {''username'', ''email'', ''password''} \<longrightarrow>
      post_auth_register e (b(k \<mapsto> JStr [])) d =
        (Response 400 (error_body ''All fields are required''), d) \<and>
      post_auth_register e (b(k := None)) d =
        (Response 400 (error_body ''All fields are required''), d))
   \<and> (k \<in> {''exercise_id'', ''exercise_name'', ''sets''} \<longrightarrow>
      post_workouts e userId (b(k \<mapsto> JStr [])) d =
        (Response 400 (error_body ''Invalid workout data''), d) \<and>
      post_workouts e userId (b(k := None)) d =
        (Response 400 (error_body ''Invalid workout data''), d))"
proof (intro conjI impI)
  assume k: "k \<in> {''username'', ''email'', ''password''}"
  have "falsy (field (b(k \<mapsto> JStr [])) k)" by (simp add: field_upd_same)
  with k show "post_auth_register e (b(k \<mapsto> JStr [])) d =
        (Response 400 (error_body ''All fields are required''), d)"
    by (intro register_missing) auto
  have "falsy (field (b(k := None)) k)" by (simp add: field_del_same)
  with k show "post_auth_register e (b(k := None)) d =
        (Response 400 (error_body ''All fields are required''), d)"
    by (intro register_missing) auto
next
  assume k: "k \<in> {''exercise_id'', ''exercise_name'', ''sets''}"
  have "falsy (field (b(k \<mapsto> JStr [])) k)" by (simp add: field_upd_same)
  with k show "post_workouts e userId (b(k \<mapsto> JStr [])) d =
        (Response 400 (error_body ''Invalid workout data''), d)"
    by (intro post_workouts_invalid) auto
  have "falsy (field (b(k := None)) k)" by (simp add: field_del_same)
  with k show "post_workouts e userId (b(k := None)) d =
        (Response 400 (error_body ''Invalid workout data''), d)"
    by (intro post_workouts_invalid) auto
qed

theorem empty_string_treated_as_absent_witness:
  "post_auth_register demo_env ((register_body ''carol'' ''c@x.com'' ''pw-carol'')(''email'' \<mapsto> JStr [])) demo_db =
     (Response 400 (error_body ''All fields are required''), demo_db) \<and>
   post_auth_register demo_env ((register_body ''carol'' ''c@x.com'' ''pw-carol'')(''email'' := None)) demo_db =
     (Response 400 (error_body ''All fields are required''), demo_db) \<and>
   post_workouts demo_env 1 (deadlift_body(''exercise_name'' \<mapsto> JStr [])) demo_db =
     (Response 400 (error_body ''Invalid workout data''), demo_db) \<and>
   post_workouts demo_env 1 (deadlift_body(''exercise_name'' := None)) demo_db =
     (Response 400 (error_body ''Invalid workout data''), demo_db)"
proof -
  have 1: "''email'' \<in> {''username'', ''email'', ''password''}" by simp
  have 2: "''exercise_name'' \<in> {''exercise_id'', ''exercise_name'', ''sets''}" by simp
  note r = empty_string_treated_as_absent
    [of "''email''" demo_env "register_body ''carol'' ''c@x.com'' ''pw-carol''" demo_db,
      THEN conjunct1, rule_format, OF 1]
  note w = empty_string_treated_as_absent
    [of "''exercise_name''" demo_env deadlift_body demo_db 1, THEN conjunct2, rule_format, OF 2]
  show ?thesis
    by (intro conjI r [THEN conjunct1] r [THEN conjunct2] w [THEN conjunct1] w [THEN conjunct2])
qed

section \<open>The round trip of a workout\<close>

lemma select_workouts_append:
  "set (select_workouts userId (d\<lparr>workouts := workouts d @ [w]\<rparr>)) =
     set (select_workouts userId d) \<union> (if w_user_id w = Some userId then {w} else {})"
  by (auto simp: set_select_workouts)

lemma select_workouts_seq [simp]:
  "select_workouts userId (d\<lparr>workouts_id_seq := n\<rparr>) = select_workouts userId d"
  by (simp add: select_workouts_def)







section \<open>No request rewrites a workout row\<close>

lemma workouts_insert_user: "workouts (snd (insert_user ts un em ph d)) = workouts d"
  by (auto simp: insert_user_def Let_def split: sum.splits option.splits)

lemma workouts_query_insert_user:
  "workouts (snd (query_insert_user ts un em ph d)) = workouts d"
  by (simp add: query_insert_user_def workouts_insert_user)

lemma workouts_post_auth_register: "workouts (snd (post_auth_register e b d)) = workouts d"
proof -
  have "snd (post_auth_register e b d) = d \<or>
        (\<exists>ph. snd (post_auth_register e b d) =
           snd (query_insert_user (now e) (prepareValue e (field b ''username''))
                  (prepareValue e (field b ''email'')) ph d))"
    by (auto simp: post_auth_register_def Let_def split: sum.splits prod.splits)
       (metis snd_conv)+
  then show ?thesis by (auto simp: workouts_query_insert_user)
qed

lemma workouts_post_auth_login: "workouts (snd (post_auth_login e b d)) = workouts d"
  by (auto simp: post_auth_login_def Let_def split: sum.splits list.splits)

lemma workouts_insert_workout:
  "w \<in> set (workouts (snd (insert_workout ts userId ei en sd wt d))) \<Longrightarrow>
     w \<in> set (workouts d) \<or> w_user_id w = Some userId"
  by (auto simp: insert_workout_def Let_def split: sum.splits option.splits if_splits)

lemma workouts_query_insert_workout:
  "w \<in> set (workouts (snd (query_insert_workout e ts userId ei en sets wt d))) \<Longrightarrow>
     w \<in> set (workouts d) \<or> w_user_id w = Some userId"
  by (auto simp: query_insert_workout_def dest: workouts_insert_workout split: if_splits)

lemma workouts_post_workouts:
  assumes "w \<in> set (workouts (snd (post_workouts e userId b d)))"
  shows "w \<in> set (workouts d) \<or> w_user_id w = Some userId"
proof -
  have "snd (post_workouts e userId b d) = d \<or>
        snd (post_workouts e userId b d) =
           snd (query_insert_workout e (now e) userId (prepareValue e (field b ''exercise_id''))
                  (prepareValue e (field b ''exercise_name'')) (field b ''sets'')
                  (prepareValue e (field b ''workout_timestamp'')) d)"
    by (auto simp: post_workouts_def Let_def split: sum.splits prod.splits)
  with assms show ?thesis by (auto dest: workouts_query_insert_workout)
qed

lemma workouts_delete_workouts_id:
  "w \<in> set (workouts (snd (delete_workouts_id e userId p d))) \<Longrightarrow> w \<in> set (workouts d)"
  by (cases "pg_int4 e p")
     (auto simp: delete_workouts_id_result delete_workouts_id_bad_id split: if_splits)

text \<open>
  No request rewrites a row: a workout row of the state after a request was there before, or
  is the row that the request added for its own user.
\<close>

lemma serve_rows:
  assumes "w \<in> set (workouts (snd (serve e c d)))"
  shows "w \<in> set (workouts d) \<or> (\<exists>userId b. c = AddWorkout userId b \<and> w_user_id w = Some userId)"
  using assms
  by (cases c)
     (auto simp: workouts_post_auth_register workouts_post_auth_login get_workouts_def
        dest: workouts_post_workouts workouts_delete_workouts_id)

end
